theory Spec2Isabelle
  imports
    Complex_Main
    "HOL-Library.Char_ord"
    "HOL-Library.List_Lexorder"
    "HOL-Library.Option_ord"
    "HOL-Library.Product_Lexorder"
begin

section \<open>Column-name normalisation (etl/04\_load\_to\_rds.py, clean\_dataframe\_for\_upload)\<close>






section \<open>Schema inference (etl/04\_load\_to\_rds.py, create\_table\_schema)\<close>

text \<open>
  A column's dtype is one of the NumPy dtypes a data frame holds or one of the pandas
  extension dtypes; \<open>dtype_str\<close> is Python's \<^verbatim>\<open>str(df[col].dtype)\<close>. The extension
  dtypes for nullable numbers have capitalised names.
\<close>

datatype dtype =
    int8 | int16 | int32 | int64
  | uint8 | uint16 | uint32 | uint64
  | float16 | float32 | float64
  | bool_dtype | object | datetime64_ns | timedelta64_ns
  | Int8Dtype | Int16Dtype | Int32Dtype | Int64Dtype
  | UInt8Dtype | UInt16Dtype | UInt32Dtype | UInt64Dtype
  | Float32Dtype | Float64Dtype
  | BooleanDtype | StringDtype | CategoricalDtype




definition is_numpy_float_dtype :: "dtype \<Rightarrow> bool" where
  "is_numpy_float_dtype d = (d = float16 \<or> d = float32 \<or> d = float64)"

definition is_float_dtype :: "dtype \<Rightarrow> bool" where
  "is_float_dtype d = (is_numpy_float_dtype d \<or> d = Float32Dtype \<or> d = Float64Dtype)"










section \<open>Exceptions\<close>

text \<open>
  A Python exception caught by \<^verbatim>\<open>except Exception as e\<close> is a value carrying its message
  \<^verbatim>\<open>str(e)\<close>. A call that may raise returns \<open>Inl e\<close> for the raise and \<open>Inr v\<close> for the
  value; \<open>try_except\<close> is the statement \<^verbatim>\<open>try: body  except Exception as e: handler(e)\<close>.
\<close>

datatype exn = Exception string

fun str_exn :: "exn \<Rightarrow> string" where
  "str_exn (Exception msg) = msg"

definition try_except :: "exn + 'a \<Rightarrow> (exn \<Rightarrow> exn + 'a) \<Rightarrow> exn + 'a" where
  "try_except body handler = (case body of Inl e \<Rightarrow> handler e | Inr v \<Rightarrow> Inr v)"

definition succeeds :: "exn + 'a \<Rightarrow> bool" where
  "succeeds r = (case r of Inl _ \<Rightarrow> False | Inr _ \<Rightarrow> True)"

section \<open>The fetcher (Lambda/lambda\_function.py)\<close>

text \<open>
  What the function reaches outside itself is a parameter: the HTTP server
  (\<open>urlopen\<close>, the bytes read from a URL or the exception), the JSON library
  (\<open>json_loads\<close>, \<open>json_dumps\<close> on a document type \<open>'j\<close>), the clock
  (\<open>date_str\<close>, today as \<^verbatim>\<open>%Y-%m-%d\<close>), the bucket name, and the object store's failures
  (\<open>put_error\<close>: the exception \<open>put_object\<close> raises for a key, if any).
  The object store maps a bucket and a key to the stored body and its content type.
\<close>

record 'j world =
  urlopen :: "string \<Rightarrow> exn + string"
  json_loads :: "string \<Rightarrow> exn + 'j"
  json_dumps :: "'j \<Rightarrow> string"
  date_str :: string
  BUCKET_NAME :: string
  put_error :: "string \<Rightarrow> exn option"

type_synonym s3_store = "string \<times> string \<rightharpoonup> string \<times> string"

record response =
  statusCode :: nat
  body :: "(string \<times> string) list"

text \<open>The \<open>body\<close> of a response is the dictionary handed to \<^verbatim>\<open>json.dumps\<close>.\<close>

definition fetch_json :: "'j world \<Rightarrow> string \<Rightarrow> exn + 'j" where
  "fetch_json w url = (case urlopen w url of Inl e \<Rightarrow> Inl e | Inr data \<Rightarrow> json_loads w data)"

definition put_object ::
  "'j world \<Rightarrow> s3_store \<Rightarrow> string \<Rightarrow> string \<Rightarrow> string \<Rightarrow> string \<Rightarrow> (exn + unit) \<times> s3_store" where
  "put_object w s3 bucket key content content_type =
     (case put_error w key of
        Some e \<Rightarrow> (Inl e, s3)
      | None \<Rightarrow> (Inr (), s3((bucket, key) \<mapsto> (content, content_type))))"

definition weather_url :: string where
  "weather_url = ''https://api.open-meteo.com/v1/forecast'' @ ''?latitude=38.9'' @
     ''&longitude=-77.0'' @ ''&daily=temperature_2m_max,temperature_2m_min,precipitation_sum'' @
     ''&timezone=America%2FNew_York''"

definition stock_url :: string where
  "stock_url = ''https://query1.finance.yahoo.com/v8/finance/chart/^GSPC'' @
     ''?range=1y&interval=1d''"

definition weather_key :: "'j world \<Rightarrow> string" where
  "weather_key w = ''raw/weather/weather_'' @ date_str w @ ''.json''"

definition sp500_key :: "'j world \<Rightarrow> string" where
  "sp500_key w = ''raw/sp500/sp500_'' @ date_str w @ ''.json''"

definition success_response :: "'j world \<Rightarrow> response" where
  "success_response w =
     \<lparr>statusCode = 200,
      body = [(''message'', ''Weather and stock data stored successfully''),
              (''date'', date_str w)]\<rparr>"

definition error_response :: "exn \<Rightarrow> response" where
  "error_response e =
     \<lparr>statusCode = 500,
      body = [(''message'', ''Error in Lambda''), (''error'', str_exn e)]\<rparr>"

text \<open>The body of the \<^verbatim>\<open>try\<close>: two fetches, then two writes, then the 200 response.\<close>

definition lambda_try :: "'j world \<Rightarrow> s3_store \<Rightarrow> (exn + response) \<times> s3_store" where
  "lambda_try w s3 =
     (case fetch_json w weather_url of
        Inl e \<Rightarrow> (Inl e, s3)
      | Inr weather_json \<Rightarrow>
     (case fetch_json w stock_url of
        Inl e \<Rightarrow> (Inl e, s3)
      | Inr stock_json \<Rightarrow>
     (case put_object w s3 (BUCKET_NAME w) (weather_key w) (json_dumps w weather_json)
             ''application/json'' of
        (Inl e, s3') \<Rightarrow> (Inl e, s3')
      | (Inr _, s3') \<Rightarrow>
     (case put_object w s3' (BUCKET_NAME w) (sp500_key w) (json_dumps w stock_json)
             ''application/json'' of
        (Inl e, s3'') \<Rightarrow> (Inl e, s3'')
      | (Inr _, s3'') \<Rightarrow> (Inr (success_response w), s3'')))))"

definition lambda_handler :: "'j world \<Rightarrow> s3_store \<Rightarrow> (exn + response) \<times> s3_store" where
  "lambda_handler w s3 =
     (case lambda_try w s3 of
        (r, s3') \<Rightarrow> (try_except r (\<lambda>e. Inr (error_response e)), s3'))"

text \<open>The four operations of a run all succeed.\<close>

definition all_succeed :: "'j world \<Rightarrow> bool" where
  "all_succeed w =
     (succeeds (fetch_json w weather_url) \<and> succeeds (fetch_json w stock_url) \<and>
      put_error w (weather_key w) = None \<and> put_error w (sp500_key w) = None)"

text \<open>The exception that ends a run: the one of the first operation that fails.\<close>

definition first_error :: "'j world \<Rightarrow> exn option" where
  "first_error w =
     (case fetch_json w weather_url of
        Inl e \<Rightarrow> Some e
      | Inr _ \<Rightarrow>
     (case fetch_json w stock_url of
        Inl e \<Rightarrow> Some e
      | Inr _ \<Rightarrow>
     (case put_error w (weather_key w) of
        Some e \<Rightarrow> Some e
      | None \<Rightarrow> put_error w (sp500_key w))))"

section \<open>The upload path (etl/04\_load\_to\_rds.py)\<close>

















text \<open>
  Two runs of the fetcher to evaluate: one where the server answers every request and the
  store takes every object, and one where the server times out.
\<close>

definition world_ok :: "string world" where
  "world_ok = \<lparr>urlopen = (\<lambda>url. Inr ''{}''), json_loads = Inr, json_dumps = (\<lambda>j. j),
               date_str = ''2024-01-02'', BUCKET_NAME = ''apan5450-stock'',
               put_error = (\<lambda>key. None)\<rparr>"

definition world_timeout :: "string world" where
  "world_timeout = \<lparr>urlopen = (\<lambda>url. Inl (Exception ''timed out'')), json_loads = Inr,
               json_dumps = (\<lambda>j. j), date_str = ''2024-01-02'', BUCKET_NAME = ''apan5450-stock'',
               put_error = (\<lambda>key. None)\<rparr>"

section \<open>Numeric columns\<close>

text \<open>
  A value of a float column: the missing-value marker NaN, the two infinities that a
  division by zero produces, or a number. Numbers are exact reals: rounding, overflow and
  the sign of zero are outside the model.
\<close>

datatype fval = NaN | PInf | NInf | Fin real

fun fsub :: "fval \<Rightarrow> fval \<Rightarrow> fval" where
  "fsub (Fin a) (Fin b) = Fin (a - b)"
| "fsub NaN y = NaN"
| "fsub x NaN = NaN"
| "fsub PInf PInf = NaN"
| "fsub NInf NInf = NaN"
| "fsub PInf y = PInf"
| "fsub NInf y = NInf"
| "fsub (Fin a) PInf = NInf"
| "fsub (Fin a) NInf = PInf"

fun fdiv :: "fval \<Rightarrow> fval \<Rightarrow> fval" where
  "fdiv (Fin a) (Fin b) =
     (if b \<noteq> 0 then Fin (a / b) else if 0 < a then PInf else if a < 0 then NInf else NaN)"
| "fdiv NaN y = NaN"
| "fdiv x NaN = NaN"
| "fdiv (Fin a) y = Fin 0"
| "fdiv PInf (Fin b) = (if b < 0 then NInf else PInf)"
| "fdiv NInf (Fin b) = (if b < 0 then PInf else NInf)"
| "fdiv x y = NaN"

fun fmul :: "fval \<Rightarrow> fval \<Rightarrow> fval" where
  "fmul (Fin a) (Fin b) = Fin (a * b)"
| "fmul NaN y = NaN"
| "fmul x NaN = NaN"
| "fmul PInf (Fin b) = (if 0 < b then PInf else if b < 0 then NInf else NaN)"
| "fmul NInf (Fin b) = (if 0 < b then NInf else if b < 0 then PInf else NaN)"
| "fmul (Fin a) PInf = (if 0 < a then PInf else if a < 0 then NInf else NaN)"
| "fmul (Fin a) NInf = (if 0 < a then NInf else if a < 0 then PInf else NaN)"
| "fmul PInf PInf = PInf"
| "fmul NInf NInf = PInf"
| "fmul x y = NInf"


subsection \<open>Series operations of the library\<close>

text \<open>\<^verbatim>\<open>ffill\<close>: a NaN takes the last value before it that is not NaN, if there is one.\<close>

fun ffill_from :: "fval \<Rightarrow> fval list \<Rightarrow> fval list" where
  "ffill_from prev [] = []"
| "ffill_from prev (x # xs) =
     (if x = NaN then prev # ffill_from prev xs else x # ffill_from x xs)"

definition ffill :: "fval list \<Rightarrow> fval list" where
  "ffill xs = ffill_from NaN xs"

text \<open>\<^verbatim>\<open>shift(1)\<close>: every value moves one row down, the first row becomes NaN.\<close>

definition shift1 :: "fval list \<Rightarrow> fval list" where
  "shift1 xs = take (length xs) (NaN # xs)"

text \<open>
  \<^verbatim>\<open>pct_change()\<close> with the defaults of the pandas versions that still accept
  \<^verbatim>\<open>fillna(method='ffill')\<close>, as this code needs: the series is forward-filled, and the
  result is \<^verbatim>\<open>filled / filled.shift(1) - 1\<close>.
\<close>

definition pct_change :: "fval list \<Rightarrow> fval list" where
  "pct_change xs =
     (let filled = ffill xs
      in map2 (\<lambda>x prev. fsub (fdiv x prev) (Fin 1)) filled (shift1 filled))"

text \<open>
  \<^verbatim>\<open>rolling(window=w, min_periods=mp).std()\<close>. The window of row \<open>i\<close> is the rows
  \<open>i - w + 1\<close> to \<open>i\<close> that exist. The observations are the numbers in the window (the
  library turns an infinity into NaN first). With fewer than \<open>mp\<close> observations, or fewer
  than two (the standard deviation divides by \<open>n - 1\<close>), the result is NaN.
\<close>

fun observations :: "fval list \<Rightarrow> real list" where
  "observations [] = []"
| "observations (Fin x # vs) = x # observations vs"
| "observations (v # vs) = observations vs"

definition sample_std :: "nat \<Rightarrow> real list \<Rightarrow> fval" where
  "sample_std mp obs =
     (let n = length obs in
      if n < mp \<or> n < 2 then NaN
      else let mean = sum_list obs / real n
           in Fin (sqrt (sum_list (map (\<lambda>x. (x - mean)\<^sup>2) obs) / real (n - 1))))"

definition window :: "nat \<Rightarrow> nat \<Rightarrow> 'a list \<Rightarrow> 'a list" where
  "window w i xs = drop (Suc i - w) (take (Suc i) xs)"

definition rolling_std :: "nat \<Rightarrow> nat \<Rightarrow> fval list \<Rightarrow> fval list" where
  "rolling_std w mp xs =
     map (\<lambda>i. sample_std mp (observations (window w i xs))) [0..<length xs]"

subsection \<open>Group-wise transformation\<close>

text \<open>
  \<^verbatim>\<open>df.groupby(key)[col].transform(f)\<close> and the group-wise \<open>pct_change\<close>: the values of
  the rows of one key form a group, in row order; \<open>f\<close> maps each group to as many results;
  the results go back to the rows of the group, in row order. A row whose key is missing
  is in no group and gets the default.
\<close>

definition group_of :: "'k option list \<Rightarrow> 'k \<Rightarrow> 'a list \<Rightarrow> 'a list" where
  "group_of keys k vals = map snd (filter (\<lambda>kv. fst kv = Some k) (zip keys vals))"

fun scatter :: "'k option list \<Rightarrow> ('k \<Rightarrow> 'v list) \<Rightarrow> 'v \<Rightarrow> 'v list" where
  "scatter [] res dflt = []"
| "scatter (None # ks) res dflt = dflt # scatter ks res dflt"
| "scatter (Some k # ks) res dflt =
     (case res k of
        [] \<Rightarrow> dflt # scatter ks res dflt
      | v # vs \<Rightarrow> v # scatter ks (res(k := vs)) dflt)"

definition groupby_transform ::
  "'k option list \<Rightarrow> 'a list \<Rightarrow> ('a list \<Rightarrow> 'v list) \<Rightarrow> 'v \<Rightarrow> 'v list" where
  "groupby_transform keys vals f dflt = scatter keys (\<lambda>k. f (group_of keys k vals)) dflt"

section \<open>Tables of the pipeline\<close>

text \<open>
  A table is the list of its rows, and a row is a record of its columns. Every table of the
  pipeline has the key column \<open>date\<close> (a timestamp after \<^verbatim>\<open>pd.to_datetime\<close>; \<open>None\<close> is
  NaT). A missing value of a text column is \<open>None\<close>, of a numeric column NaN.
\<close>

record dated =
  date :: "int option"

text \<open>\<^verbatim>\<open>stock_data_wiki.csv\<close>; the column \<open>open\<close> is the field \<open>open_col\<close>.\<close>

record stock_row = dated +
  ticker :: "string option"
  company_name :: "string option"
  sector :: "string option"
  industry :: "string option"
  open_col :: fval
  high :: fval
  low :: fval
  close :: fval
  volume :: fval

text \<open>
  The stock table with the columns that \<open>prepare_stock_data_with_metrics\<close> adds. Its last
  step renames \<open>daily_return\<close> to \<open>Return\<close> and \<open>volatility_7\<close> to \<open>Volatility_7\<close>; the
  fields keep the first names.
\<close>

record metrics_row = stock_row +
  daily_return :: fval
  price_range :: fval
  price_change :: fval
  price_change_pct :: fval
  volatility_7 :: fval
  num_stocks :: fval

text \<open>The columns of \<^verbatim>\<open>merged_analysis_data.csv\<close> that \<open>analysis_cols\<close> selects.\<close>

record analysis_row = dated +
  sp500_close :: fval
  sp500_return :: fval
  sp500_volatility_7d :: fval
  avg_rainfall :: fval
  depression_index :: fval
  depression_word_count :: fval
  total_articles :: fval
  avg_depression_per_article :: fval

text \<open>
  The analysis table as \<open>prepare_analysis_data\<close> returns it, with the category column. It
  renames \<open>sp500_close\<close> to \<open>Close_^GSPC\<close> and \<open>avg_rainfall\<close> to \<open>avg_national_rainfall\<close>;
  the fields keep the first names.
\<close>

record analysis_clean_row = analysis_row +
  depression_index_category :: "string option"

text \<open>
  \<^verbatim>\<open>merged_time_series_data.csv\<close>, as far as the pipeline reads it: whether it has the
  column \<open>depression_index_category\<close>, and the date and that column of every row.
\<close>

record time_series =
  has_category :: bool
  ts_rows :: "(int option \<times> string option) list"

text \<open>
  A row of the ultimate dataset: the columns of \<open>target_columns\<close>, in that order. The four
  calendar columns added at the end (year, month, quarter, day of week) are functions of
  \<open>date\<close> alone and are left out.
\<close>

record ultimate_row = dated +
  u_ticker :: "string option"
  u_company_name :: "string option"
  u_sector :: "string option"
  u_industry :: "string option"
  u_open :: fval
  u_high :: fval
  u_low :: fval
  u_close :: fval
  u_volume :: fval
  u_num_stocks :: fval
  u_Close_GSPC :: fval
  u_Return :: fval
  u_Volatility_7 :: fval
  u_depression_word_count :: fval
  u_total_articles :: fval
  u_depression_index :: fval
  u_avg_national_rainfall :: fval
  u_price_range :: fval
  u_price_change_pct :: fval
  u_depression_index_category :: "string option"

subsection \<open>Joins and sorting\<close>

text \<open>
  \<^verbatim>\<open>pd.merge(left, right, on='date', how='inner')\<close>: one row for every pair of a left row
  and a right row with the same date, in the order of the left rows. A merged row has the
  columns of both rows and is the pair of them. Missing dates match each other.
\<close>

definition pd_merge_inner ::
  "('a dated_scheme) list \<Rightarrow> ('b dated_scheme) list \<Rightarrow> ('a dated_scheme \<times> 'b dated_scheme) list" where
  "pd_merge_inner left right =
     concat (map (\<lambda>l. map (\<lambda>r. (l, r)) (filter (\<lambda>r. date r = date l) right)) left)"

text \<open>
  \<^verbatim>\<open>pd.merge(left, right, on='date', how='left')\<close> with a right table of one more column:
  a left row without a match stays, with a missing value in that column.
\<close>

definition pd_merge_left ::
  "('a dated_scheme) list \<Rightarrow> (int option \<times> 'c option) list \<Rightarrow> ('a dated_scheme \<times> 'c option) list" where
  "pd_merge_left left right =
     concat (map (\<lambda>l. case filter (\<lambda>r. fst r = date l) right of
                          [] \<Rightarrow> [(l, None)]
                        | ms \<Rightarrow> map (\<lambda>r. (l, snd r)) ms) left)"

text \<open>
  \<^verbatim>\<open>sort_values\<close> on two columns is stable and puts missing values last: the key of a
  column value says first whether it is missing.
\<close>

definition na_last :: "'a option \<Rightarrow> bool \<times> 'a option" where
  "na_last x = (x = None, x)"

section \<open>Stock metrics (etl/create\_ultimate\_dataset.py, prepare\_stock\_data\_with\_metrics)\<close>

definition add_metrics :: "stock_row \<Rightarrow> fval \<times> fval \<times> fval \<times> fval \<times> fval \<times> fval \<Rightarrow> metrics_row" where
  "add_metrics r m =
     (case m of (dr, pr, pc, pcp, v, n) \<Rightarrow>
        stock_row.extend r (metrics_row.fields dr pr pc pcp v n))"

text \<open>\<^verbatim>\<open>transform('count')\<close>: every row of a group gets the number of values of the group
  that are not missing.\<close>

definition count_transform :: "'a option list \<Rightarrow> fval list" where
  "count_transform g = replicate (length g) (Fin (real (length (filter (\<lambda>t. t \<noteq> None) g))))"

text \<open>
  The rows with a missing sector, industry or company name go; the table is sorted by
  ticker and date; the return is the percentage change of \<open>close\<close> within the ticker; the
  three price columns are row-wise; the volatility is the rolling standard deviation of
  the return within the ticker, over a window of 7 rows with \<^verbatim>\<open>min_periods=1\<close>;
  \<open>num_stocks\<close> counts the tickers of the date.
\<close>

definition prepare_stock_data_with_metrics :: "stock_row list \<Rightarrow> metrics_row list" where
  "prepare_stock_data_with_metrics stock_data =
     (let stock_data =
            filter (\<lambda>r. sector r \<noteq> None \<and> industry r \<noteq> None \<and> company_name r \<noteq> None) stock_data;
          stock_data = sort_key (\<lambda>r. (na_last (ticker r), na_last (date r))) stock_data;
          daily_return =
            groupby_transform (map ticker stock_data) (map close stock_data) pct_change NaN;
          price_range = map (\<lambda>r. fsub (high r) (low r)) stock_data;
          price_change = map (\<lambda>r. fsub (close r) (open_col r)) stock_data;
          price_change_pct =
            map2 (\<lambda>pc r. fmul (fdiv pc (open_col r)) (Fin 100)) price_change stock_data;
          volatility_7 =
            groupby_transform (map ticker stock_data) daily_return (rolling_std 7 1) NaN;
          num_stocks =
            groupby_transform (map date stock_data) (map ticker stock_data) count_transform NaN
      in map2 add_metrics stock_data
           (zip daily_return (zip price_range (zip price_change
              (zip price_change_pct (zip volatility_7 num_stocks))))))"

section \<open>Stock returns (src/etl/create\_final\_dataset.py, prepare\_stock\_data)\<close>

text \<open>
  The stock table of \<open>prepare_stock_data\<close> as it stands before the aggregation: the rows
  with a sector and an industry, sorted by ticker and date, with the return of each ticker
  and the three row-wise price columns. The means and sums per sector and per industry
  that the function returns are taken over these rows and are not part of this development.
\<close>

record returns_row = stock_row +
  r_daily_return :: fval
  r_price_range :: fval
  r_price_change :: fval
  r_price_change_pct :: fval

definition add_returns :: "stock_row \<Rightarrow> fval \<times> fval \<times> fval \<times> fval \<Rightarrow> returns_row" where
  "add_returns r m =
     (case m of (dr, pr, pc, pcp) \<Rightarrow> stock_row.extend r (returns_row.fields dr pr pc pcp))"

definition prepare_stock_data_rows :: "stock_row list \<Rightarrow> returns_row list" where
  "prepare_stock_data_rows stock_data =
     (let stock_data = filter (\<lambda>r. sector r \<noteq> None \<and> industry r \<noteq> None) stock_data;
          stock_data = sort_key (\<lambda>r. (na_last (ticker r), na_last (date r))) stock_data;
          daily_return =
            groupby_transform (map ticker stock_data) (map close stock_data) pct_change NaN;
          price_range = map (\<lambda>r. fsub (high r) (low r)) stock_data;
          price_change = map (\<lambda>r. fsub (close r) (open_col r)) stock_data;
          price_change_pct =
            map2 (\<lambda>pc r. fmul (fdiv pc (open_col r)) (Fin 100)) price_change stock_data
      in map2 add_returns stock_data
           (zip daily_return (zip price_range (zip price_change price_change_pct))))"

section \<open>Analysis data (etl/create\_ultimate\_dataset.py, prepare\_analysis\_data)\<close>

text \<open>\<^verbatim>\<open>fillna(0)\<close> on one value.\<close>

definition fillna0 :: "fval \<Rightarrow> fval" where
  "fillna0 v = (if v = NaN then Fin 0 else v)"

text \<open>
  \<^verbatim>\<open>pd.cut(x, bins=[0, 33, 66, 100], labels=['Low', 'Medium', 'High'])\<close> on one value:
  the intervals are open on the left and closed on the right, and a value in none of them
  has no category.
\<close>

fun pd_cut :: "fval \<Rightarrow> string option" where
  "pd_cut (Fin x) =
     (if 0 < x \<and> x \<le> 33 then Some ''Low''
      else if 33 < x \<and> x \<le> 66 then Some ''Medium''
      else if 66 < x \<and> x \<le> 100 then Some ''High''
      else None)"
| "pd_cut v = None"

text \<open>
  When the time series has the category column, it is left-joined on the date; the
  depression index is forward-filled, the two counts get 0 for a missing value; when the
  category column is not there yet, it is cut from the depression index.
\<close>

definition prepare_analysis_data :: "analysis_row list \<Rightarrow> time_series \<Rightarrow> analysis_clean_row list" where
  "prepare_analysis_data analysis_data time_series_data =
     (let analysis_clean =
            (if has_category time_series_data
             then pd_merge_left analysis_data (ts_rows time_series_data)
             else map (\<lambda>a. (a, None)) analysis_data);
          filled = ffill (map (\<lambda>ac. depression_index (fst ac)) analysis_clean)
      in map2 (\<lambda>ac d.
                 analysis_row.extend
                   ((fst ac)\<lparr>depression_index := d,
                             depression_word_count := fillna0 (depression_word_count (fst ac)),
                             total_articles := fillna0 (total_articles (fst ac))\<rparr>)
                   (analysis_clean_row.fields
                      (if has_category time_series_data then snd ac else pd_cut d)))
           analysis_clean filled)"

section \<open>The ultimate dataset (etl/create\_ultimate\_dataset.py, create\_ultimate\_dataset)\<close>

definition select_target_columns :: "metrics_row \<times> analysis_clean_row \<Rightarrow> ultimate_row" where
  "select_target_columns m =
     (case m of (s, a) \<Rightarrow>
        \<lparr>date = date s, u_ticker = ticker s, u_company_name = company_name s,
         u_sector = sector s, u_industry = industry s,
         u_open = open_col s, u_high = high s, u_low = low s, u_close = close s,
         u_volume = volume s, u_num_stocks = num_stocks s,
         u_Close_GSPC = sp500_close a, u_Return = daily_return s,
         u_Volatility_7 = volatility_7 s,
         u_depression_word_count = depression_word_count a,
         u_total_articles = total_articles a, u_depression_index = depression_index a,
         u_avg_national_rainfall = avg_rainfall a, u_price_range = price_range s,
         u_price_change_pct = price_change_pct s,
         u_depression_index_category = depression_index_category a\<rparr>)"

text \<open>The inner join on the date, the target columns, the sort by date and ticker.\<close>

definition create_ultimate_dataset :: "metrics_row list \<Rightarrow> analysis_clean_row list \<Rightarrow> ultimate_row list" where
  "create_ultimate_dataset stock_data analysis_data =
     (let ultimate_data = pd_merge_inner stock_data analysis_data;
          ultimate_data = map select_target_columns ultimate_data;
          ultimate_data = sort_key (\<lambda>u. (na_last (date u), na_last (u_ticker u))) ultimate_data
      in ultimate_data)"

section \<open>The final datasets (src/etl/create\_final\_dataset.py, create\_final\_datasets)\<close>

text \<open>
  A row of \<open>sector_daily\<close> or \<open>industry_daily\<close>: the date, the sector or industry
  (\<open>group_label\<close>) and the aggregates of the day.
\<close>

record daily_row = dated +
  group_label :: "string option"
  d_open :: fval
  d_high :: fval
  d_low :: fval
  d_close :: fval
  d_volume :: fval
  d_daily_return :: fval
  d_price_range :: fval
  d_price_change_pct :: fval
  d_num_stocks :: fval

text \<open>
  A row of a final dataset: the daily row, the columns of the analysis row joined to it
  (\<open>f_analysis\<close>) and the category. The calendar columns are left out as above. The
  rolling volatility is not a column of the result: the loop computes it on the sorted copy
  that it binds to its own variable, and returns the two merged tables.
\<close>

record final_row = daily_row +
  f_analysis :: analysis_row
  f_depression_index_category :: "string option"

definition add_features :: "daily_row \<times> analysis_row \<Rightarrow> final_row" where
  "add_features m =
     (case m of (d, a) \<Rightarrow>
        daily_row.extend d (final_row.fields a (pd_cut (depression_index a))))"

definition create_final_datasets ::
  "daily_row list \<Rightarrow> daily_row list \<Rightarrow> analysis_row list \<Rightarrow> final_row list \<times> final_row list" where
  "create_final_datasets sector_daily industry_daily analysis_data =
     (let sector_final = pd_merge_inner sector_daily analysis_data;
          industry_final = pd_merge_inner industry_daily analysis_data
      in (map add_features sector_final, map add_features industry_final))"

section \<open>Aggregation and statistics (src/etl/create\_final\_dataset.py)\<close>

subsection \<open>Aggregations of the library\<close>

















subsection \<open>prepare\_stock\_data\<close>



subsection \<open>prepare\_analysis\_data\<close>


subsection \<open>Summary statistics\<close>





subsection \<open>The stage on the files\<close>









section \<open>Reading the tables per ticker\<close>

text \<open>
  Notions to state the properties with: a row that survives \<^verbatim>\<open>dropna\<close>, the table as
  \<open>prepare_stock_data_with_metrics\<close> sorts it, the close prices of one ticker in that order,
  and a price that is a number other than zero.
\<close>

definition complete_row :: "stock_row \<Rightarrow> bool" where
  "complete_row r = (sector r \<noteq> None \<and> industry r \<noteq> None \<and> company_name r \<noteq> None)"

definition sorted_stock :: "stock_row list \<Rightarrow> stock_row list" where
  "sorted_stock stock_data =
     sort_key (\<lambda>r. (na_last (ticker r), na_last (date r))) (filter complete_row stock_data)"

definition closes_of :: "string \<Rightarrow> stock_row list \<Rightarrow> fval list" where
  "closes_of t tbl = map close (sorted_stock (filter (\<lambda>r. ticker r = Some t) tbl))"

definition labelled_row :: "stock_row \<Rightarrow> bool" where
  "labelled_row r = (sector r \<noteq> None \<and> industry r \<noteq> None)"

definition sorted_labelled :: "stock_row list \<Rightarrow> stock_row list" where
  "sorted_labelled stock_data =
     sort_key (\<lambda>r. (na_last (ticker r), na_last (date r))) (filter labelled_row stock_data)"


section \<open>Tables to evaluate\<close>

text \<open>
  Small tables: quotes of a few tickers over three days, two tables that agree on the ticker
  \<open>AAA\<close> and differ elsewhere, a ticker quoted at zero for eight days, the three-row
  fixture with closes 10, 12 and 9, one day of analysis data, a time series that lists one
  date twice, and daily rows of a sector.
\<close>

definition quote :: "int \<Rightarrow> string \<Rightarrow> real \<Rightarrow> stock_row" where
  "quote d t c =
     \<lparr>date = Some d, ticker = Some t, company_name = Some (t @ '' Corp''),
      sector = Some ''Technology'', industry = Some ''Software'',
      open_col = Fin (c - 1), high = Fin (c + 2), low = Fin (c - 2), close = Fin c,
      volume = Fin 1000\<rparr>"

definition table_a :: "stock_row list" where
  "table_a = [quote 1 ''AAA'' 10, quote 1 ''BBB'' 50, quote 2 ''AAA'' 12, quote 2 ''BBB'' 40,
              quote 3 ''AAA'' 9]"

definition table_b :: "stock_row list" where
  "table_b = [quote 1 ''AAA'' 10, quote 2 ''AAA'' 12, quote 2 ''CCC'' 7, quote 3 ''AAA'' 9,
              quote 3 ''CCC'' 0]"



definition analysis_day :: "int \<Rightarrow> real \<Rightarrow> analysis_row" where
  "analysis_day d idx =
     \<lparr>date = Some d, sp500_close = Fin 4700, sp500_return = Fin 0, sp500_volatility_7d = Fin 0,
      avg_rainfall = Fin 2, depression_index = Fin idx, depression_word_count = Fin 12,
      total_articles = Fin 40, avg_depression_per_article = Fin 0.3\<rparr>"

definition two_tickers :: "metrics_row list" where
  "two_tickers = prepare_stock_data_with_metrics [quote 1 ''AAA'' 10, quote 1 ''BBB'' 50]"

definition one_day :: "analysis_clean_row list" where
  "one_day = prepare_analysis_data [analysis_day 1 20] \<lparr>has_category = False, ts_rows = []\<rparr>"

definition one_ticker :: "metrics_row list" where
  "one_ticker = prepare_stock_data_with_metrics [quote 1 ''AAA'' 10]"

definition doubled_day :: "analysis_clean_row list" where
  "doubled_day = prepare_analysis_data [analysis_day 1 20]
     \<lparr>has_category = True, ts_rows = [(Some 1, Some ''Low''), (Some 1, Some ''Medium'')]\<rparr>"

definition sector_day :: "int \<Rightarrow> string \<Rightarrow> daily_row" where
  "sector_day d s =
     \<lparr>date = Some d, group_label = Some s, d_open = Fin 10, d_high = Fin 12, d_low = Fin 9,
      d_close = Fin 11, d_volume = Fin 5000, d_daily_return = Fin 0.01, d_price_range = Fin 3,
      d_price_change_pct = Fin 10, d_num_stocks = Fin 4\<rparr>"







section \<open>Properties of the column-name normalisation\<close>







section \<open>Properties of the schema inference\<close>















section \<open>Properties of the upload path\<close>

















section \<open>Properties of the fetcher\<close>

text \<open>
  C10. \<open>lambda_handler\<close> never lets an exception out: it always returns a response. The status
  is 200 exactly when both fetches and both writes succeed, and then the store holds the two
  raw documents under the keys named after the date; otherwise the status is 500 and the
  body carries the message of the exception that ended the run.
\<close>

theorem lambda_handler_status:
  "\<exists>r s3'. lambda_handler w s3 = (Inr r, s3') \<and>
      (statusCode r = 200 \<longleftrightarrow> all_succeed w) \<and>
      (all_succeed w \<longrightarrow>
         r = success_response w \<and>
         (\<exists>weather_json stock_json.
            fetch_json w weather_url = Inr weather_json \<and>
            fetch_json w stock_url = Inr stock_json \<and>
            s3' = s3((BUCKET_NAME w, weather_key w) \<mapsto> (json_dumps w weather_json, ''application/json''),
                     (BUCKET_NAME w, sp500_key w) \<mapsto> (json_dumps w stock_json, ''application/json'')))) \<and>
      (\<not> all_succeed w \<longrightarrow>
         statusCode r = 500 \<and>
         (\<exists>e. first_error w = Some e \<and> r = error_response e \<and>
              map_of (body r) ''error'' = Some (str_exn e)))"
  by (auto simp: lambda_handler_def lambda_try_def put_object_def try_except_def all_succeed_def
      first_error_def success_response_def error_response_def succeeds_def
      split: sum.splits option.splits prod.splits)

theorem lambda_handler_status_witness:
  "(\<exists>s3'. lambda_handler world_ok Map.empty = (Inr (success_response world_ok), s3') \<and>
      s3' (''apan5450-stock'', ''raw/weather/weather_2024-01-02.json'')
        = Some (''{}'', ''application/json'') \<and>
      s3' (''apan5450-stock'', ''raw/sp500/sp500_2024-01-02.json'')
        = Some (''{}'', ''application/json'')) \<and>
   (\<exists>r s3'. lambda_handler world_timeout Map.empty = (Inr r, s3') \<and> statusCode r = 500 \<and>
      map_of (body r) ''error'' = Some ''timed out'')"
proof -
  have ok: "all_succeed world_ok"
    by (simp add: all_succeed_def world_ok_def fetch_json_def succeeds_def)
  have bad: "\<not> all_succeed world_timeout" "first_error world_timeout = Some (Exception ''timed out'')"
    by (simp_all add: all_succeed_def first_error_def world_timeout_def fetch_json_def succeeds_def)
  from lambda_handler_status [of world_ok Map.empty] ok
  have "\<exists>s3'. lambda_handler world_ok Map.empty = (Inr (success_response world_ok), s3') \<and>
      s3' (''apan5450-stock'', ''raw/weather/weather_2024-01-02.json'')
        = Some (''{}'', ''application/json'') \<and>
      s3' (''apan5450-stock'', ''raw/sp500/sp500_2024-01-02.json'')
        = Some (''{}'', ''application/json'')"
    by (auto simp: world_ok_def fetch_json_def weather_key_def sp500_key_def)
  moreover from lambda_handler_status [of world_timeout Map.empty] bad
  have "\<exists>r s3'. lambda_handler world_timeout Map.empty = (Inr r, s3') \<and> statusCode r = 500 \<and>
      map_of (body r) ''error'' = Some ''timed out''"
    by auto
  ultimately show ?thesis by blast
qed

section \<open>Properties of the group-wise transformation\<close>

lemma length_scatter: "length (scatter ks res dflt) = length ks"
proof (induction ks arbitrary: res)
  case Nil
  show ?case by simp
next
  case (Cons x ks)
  show ?case
    by (cases x) (simp_all add: Cons split: list.splits)
qed

lemma length_groupby_transform: "length (groupby_transform keys vals f dflt) = length keys"
  by (simp add: groupby_transform_def length_scatter)

lemma group_of_Nil: "group_of [] k vals = []"
  by (simp add: group_of_def)

lemma group_of_Cons:
  "group_of (x # ks) k (v # vs) = (if x = Some k then v # group_of ks k vs else group_of ks k vs)"
  by (simp add: group_of_def)

lemma group_of_scatter:
  "length (filter (\<lambda>x. x = Some k) ks) \<le> length (res k) \<Longrightarrow>
   group_of ks k (scatter ks res dflt) = take (length (filter (\<lambda>x. x = Some k) ks)) (res k)"
proof (induction ks arbitrary: res)
  case Nil
  show ?case by (simp add: group_of_Nil)
next
  case (Cons x ks)
  show ?case
  proof (cases x)
    case None
    with Cons show ?thesis by (simp add: group_of_Cons)
  next
    case (Some k')
    show ?thesis
    proof (cases "res k'")
      case Nil
      with Cons Some show ?thesis
        by (auto simp: group_of_Cons)
    next
      case (Cons v vs)
      then have \<open>res k' = v # vs\<close> .
      show ?thesis
      proof (cases "k' = k")
        case True
        with Cons.prems \<open>res k' = v # vs\<close> Some
        have "length (filter (\<lambda>x. x = Some k) ks) \<le> length ((res(k' := vs)) k)"
          by simp
        then have ih: "group_of ks k (scatter ks (res(k' := vs)) dflt)
            = take (length (filter (\<lambda>x. x = Some k) ks)) ((res(k' := vs)) k)"
          by (rule Cons.IH)
        have "scatter (x # ks) res dflt = v # scatter ks (res(k' := vs)) dflt"
          using Some \<open>res k' = v # vs\<close> by simp
        with ih True Some \<open>res k' = v # vs\<close> show ?thesis
          by (simp add: group_of_Cons)
      next
        case False
        with Cons.prems Some
        have "length (filter (\<lambda>x. x = Some k) ks) \<le> length ((res(k' := vs)) k)"
          by simp
        then have ih: "group_of ks k (scatter ks (res(k' := vs)) dflt)
            = take (length (filter (\<lambda>x. x = Some k) ks)) ((res(k' := vs)) k)"
          by (rule Cons.IH)
        have "scatter (x # ks) res dflt = v # scatter ks (res(k' := vs)) dflt"
          using Some \<open>res k' = v # vs\<close> by simp
        with ih False Some show ?thesis
          by (simp add: group_of_Cons)
      qed
    qed
  qed
qed

lemma group_of_map:
  "group_of (map key rs) k (map g rs) = map g (filter (\<lambda>r. key r = Some k) rs)"
  by (induction rs) (simp_all add: group_of_Nil group_of_Cons)

lemma length_group_of:
  "length vals = length ks \<Longrightarrow> length (group_of ks k vals) = length (filter (\<lambda>x. x = Some k) ks)"
  by (induction ks vals rule: list_induct2') (simp_all add: group_of_Nil group_of_Cons)

lemma group_of_groupby_transform:
  assumes "\<And>g. length (f g) = length g" and "length vals = length keys"
  shows "group_of keys k (groupby_transform keys vals f dflt) = f (group_of keys k vals)"
proof -
  have len: "length (f (group_of keys k vals)) = length (filter (\<lambda>x. x = Some k) keys)"
    by (simp add: assms length_group_of)
  then have "group_of keys k (scatter keys (\<lambda>k. f (group_of keys k vals)) dflt)
      = take (length (filter (\<lambda>x. x = Some k) keys)) (f (group_of keys k vals))"
    by (intro group_of_scatter) simp
  with len show ?thesis
    by (simp add: groupby_transform_def)
qed

lemma length_ffill_from: "length (ffill_from p xs) = length xs"
  by (induction xs arbitrary: p) simp_all

lemma length_pct_change: "length (pct_change xs) = length xs"
  by (simp add: pct_change_def Let_def ffill_def shift1_def length_ffill_from)

lemma length_rolling_std: "length (rolling_std w mp xs) = length xs"
  by (simp add: rolling_std_def)

section \<open>The metrics of one ticker\<close>

lemma add_metrics_sel:
  "ticker (add_metrics r (dr, pr, pc, pcp, v, n)) = ticker r"
  "date (add_metrics r (dr, pr, pc, pcp, v, n)) = date r"
  "daily_return (add_metrics r (dr, pr, pc, pcp, v, n)) = dr"
  "volatility_7 (add_metrics r (dr, pr, pc, pcp, v, n)) = v"
  "price_range (add_metrics r (dr, pr, pc, pcp, v, n)) = pr"
  "price_change_pct (add_metrics r (dr, pr, pc, pcp, v, n)) = pcp"
  "high (add_metrics r (dr, pr, pc, pcp, v, n)) = high r"
  "low (add_metrics r (dr, pr, pc, pcp, v, n)) = low r"
  "close (add_metrics r (dr, pr, pc, pcp, v, n)) = close r"
  "open_col (add_metrics r (dr, pr, pc, pcp, v, n)) = open_col r"
  by (simp_all add: add_metrics_def stock_row.extend_def metrics_row.fields_def)

lemma map2_columns:
  assumes "length a = length xs" "length b = length xs" "length c = length xs"
    "length d = length xs" "length e = length xs" "length f = length xs"
  shows "map ticker (map2 add_metrics xs (zip a (zip b (zip c (zip d (zip e f)))))) = map ticker xs"
    and "map date (map2 add_metrics xs (zip a (zip b (zip c (zip d (zip e f)))))) = map date xs"
    and "map daily_return (map2 add_metrics xs (zip a (zip b (zip c (zip d (zip e f)))))) = a"
    and "map volatility_7 (map2 add_metrics xs (zip a (zip b (zip c (zip d (zip e f)))))) = e"
    and "map price_range (map2 add_metrics xs (zip a (zip b (zip c (zip d (zip e f)))))) = b"
    and "map price_change_pct (map2 add_metrics xs (zip a (zip b (zip c (zip d (zip e f)))))) = d"
  using assms by (auto simp: list_eq_iff_nth_eq add_metrics_sel)

lemma prepare_columns:
  shows "map ticker (prepare_stock_data_with_metrics tbl) = map ticker (sorted_stock tbl)"
    and "map date (prepare_stock_data_with_metrics tbl) = map date (sorted_stock tbl)"
    and "map daily_return (prepare_stock_data_with_metrics tbl) =
          groupby_transform (map ticker (sorted_stock tbl)) (map close (sorted_stock tbl)) pct_change NaN"
    and "map volatility_7 (prepare_stock_data_with_metrics tbl) =
          groupby_transform (map ticker (sorted_stock tbl))
            (groupby_transform (map ticker (sorted_stock tbl)) (map close (sorted_stock tbl)) pct_change NaN)
            (rolling_std 7 1) NaN"
    and "map price_range (prepare_stock_data_with_metrics tbl) =
          map (\<lambda>r. fsub (high r) (low r)) (sorted_stock tbl)"
    and "map price_change_pct (prepare_stock_data_with_metrics tbl) =
          map2 (\<lambda>pc r. fmul (fdiv pc (open_col r)) (Fin 100))
            (map (\<lambda>r. fsub (close r) (open_col r)) (sorted_stock tbl)) (sorted_stock tbl)"
  unfolding prepare_stock_data_with_metrics_def Let_def sorted_stock_def [symmetric, unfolded complete_row_def]
  by (rule map2_columns; simp add: length_groupby_transform)+

lemma filter_project:
  "map h (filter (\<lambda>m. key m = Some k) os) = group_of (map key os) k (map h os)"
  by (simp add: group_of_map)

lemma ticker_group_sorted:
  "filter (\<lambda>r. ticker r = Some t) (sorted_stock tbl) = sorted_stock (filter (\<lambda>r. ticker r = Some t) tbl)"
  unfolding sorted_stock_def filter_sort
  by (simp add: conj_commute)

lemma daily_return_of_ticker:
  "map daily_return (filter (\<lambda>m. ticker m = Some t) (prepare_stock_data_with_metrics tbl))
     = pct_change (closes_of t tbl)"
  by (simp add: filter_project prepare_columns group_of_groupby_transform length_pct_change
      group_of_map ticker_group_sorted closes_of_def)

lemma volatility_of_ticker:
  "map volatility_7 (filter (\<lambda>m. ticker m = Some t) (prepare_stock_data_with_metrics tbl))
     = rolling_std 7 1 (pct_change (closes_of t tbl))"
  by (simp add: filter_project prepare_columns group_of_groupby_transform length_pct_change
      length_rolling_std length_groupby_transform
      group_of_map ticker_group_sorted closes_of_def)

section \<open>The shape of the rolling volatility\<close>














section \<open>Properties of the stock metrics\<close>





lemma add_returns_sel:
  "ticker (add_returns r (dr, pr, pc, pcp)) = ticker r"
  "r_daily_return (add_returns r (dr, pr, pc, pcp)) = dr"
  by (simp_all add: add_returns_def stock_row.extend_def returns_row.fields_def)

lemma map2_return_columns:
  assumes "length a = length xs" "length b = length xs" "length c = length xs"
    "length d = length xs"
  shows "map ticker (map2 add_returns xs (zip a (zip b (zip c d)))) = map ticker xs"
    and "map r_daily_return (map2 add_returns xs (zip a (zip b (zip c d)))) = a"
  using assms by (auto simp: list_eq_iff_nth_eq add_returns_sel)

lemma prepare_rows_columns:
  shows "map ticker (prepare_stock_data_rows tbl) = map ticker (sorted_labelled tbl)"
    and "map r_daily_return (prepare_stock_data_rows tbl) =
          groupby_transform (map ticker (sorted_labelled tbl)) (map close (sorted_labelled tbl))
            pct_change NaN"
  unfolding prepare_stock_data_rows_def Let_def sorted_labelled_def [symmetric, unfolded labelled_row_def]
  by (rule map2_return_columns; simp add: length_groupby_transform)+

lemma ticker_group_sorted_labelled:
  "filter (\<lambda>r. ticker r = Some t) (sorted_labelled tbl)
     = sorted_labelled (filter (\<lambda>r. ticker r = Some t) tbl)"
  unfolding sorted_labelled_def filter_sort
  by (simp add: conj_commute)

lemma return_of_ticker_rows:
  "map r_daily_return (filter (\<lambda>m. ticker m = Some t) (prepare_stock_data_rows tbl))
     = pct_change (map close (sorted_labelled (filter (\<lambda>r. ticker r = Some t) tbl)))"
  by (simp add: filter_project prepare_rows_columns group_of_groupby_transform length_pct_change
      group_of_map ticker_group_sorted_labelled)

text \<open>
  C4. The return and the rolling volatility are computed per ticker: when two stock tables
  have the same rows of a ticker \<open>t\<close> (in the same order), the returns and volatilities on
  the rows of \<open>t\<close> in the two results of \<open>prepare_stock_data_with_metrics\<close> are the same,
  and so are the returns on the rows of \<open>t\<close> in \<open>prepare_stock_data\<close>, whatever the other
  rows are.
\<close>

theorem per_ticker_independence:
  assumes "filter (\<lambda>r. ticker r = Some t) table1 = filter (\<lambda>r. ticker r = Some t) table2"
  shows "map (\<lambda>m. (daily_return m, volatility_7 m))
           (filter (\<lambda>m. ticker m = Some t) (prepare_stock_data_with_metrics table1))
       = map (\<lambda>m. (daily_return m, volatility_7 m))
           (filter (\<lambda>m. ticker m = Some t) (prepare_stock_data_with_metrics table2)) \<and>
         map r_daily_return (filter (\<lambda>m. ticker m = Some t) (prepare_stock_data_rows table1))
       = map r_daily_return (filter (\<lambda>m. ticker m = Some t) (prepare_stock_data_rows table2))"
proof -
  have pair: "\<And>xs. map (\<lambda>m. (daily_return m, volatility_7 m)) xs
      = zip (map daily_return xs) (map volatility_7 xs)"
    by (simp add: zip_map_map [where f = daily_return and g = volatility_7, simplified] list_eq_iff_nth_eq)
  from assms have "closes_of t table1 = closes_of t table2"
    by (simp add: closes_of_def)
  with assms show ?thesis
    by (simp add: pair daily_return_of_ticker volatility_of_ticker return_of_ticker_rows)
qed

theorem per_ticker_independence_witness:
  "filter (\<lambda>r. ticker r = Some ''AAA'') table_a = filter (\<lambda>r. ticker r = Some ''AAA'') table_b \<and>
   table_a \<noteq> table_b \<and>
   map (\<lambda>m. (daily_return m, volatility_7 m))
     (filter (\<lambda>m. ticker m = Some ''AAA'') (prepare_stock_data_with_metrics table_a))
   = map (\<lambda>m. (daily_return m, volatility_7 m))
     (filter (\<lambda>m. ticker m = Some ''AAA'') (prepare_stock_data_with_metrics table_b)) \<and>
   map r_daily_return (filter (\<lambda>m. ticker m = Some ''AAA'') (prepare_stock_data_rows table_a))
   = map r_daily_return (filter (\<lambda>m. ticker m = Some ''AAA'') (prepare_stock_data_rows table_b))"
proof -
  have h: "filter (\<lambda>r. ticker r = Some ''AAA'') table_a = filter (\<lambda>r. ticker r = Some ''AAA'') table_b"
    by (simp add: table_a_def table_b_def quote_def)
  have "table_a \<noteq> table_b"
    by (simp add: table_a_def table_b_def quote_def)
  with h per_ticker_independence [OF h] show ?thesis by simp
qed



section \<open>Properties of the joins\<close>

lemma length_pd_merge_inner:
  "length (pd_merge_inner left right)
     = (\<Sum>l\<leftarrow>left. length (filter (\<lambda>r. date r = date l) right))"
  by (simp add: pd_merge_inner_def length_concat comp_def)

lemma dates_pd_merge_inner:
  "(\<lambda>m. date (fst m)) ` set (pd_merge_inner left right) = date ` set left \<inter> date ` set right"
proof (intro set_eqI iffI)
  fix d
  assume "d \<in> (\<lambda>m. date (fst m)) ` set (pd_merge_inner left right)"
  then obtain l r where "l \<in> set left" "r \<in> set right" "date r = date l" "d = date l"
    by (auto simp: pd_merge_inner_def)
  then show "d \<in> date ` set left \<inter> date ` set right"
    by (metis IntI imageI)
next
  fix d
  assume "d \<in> date ` set left \<inter> date ` set right"
  then obtain l r where lr: "l \<in> set left" "r \<in> set right" "date l = d" "date r = d"
    by auto
  then have "(l, r) \<in> set (pd_merge_inner left right)"
    by (auto simp: pd_merge_inner_def)
  with lr show "d \<in> (\<lambda>m. date (fst m)) ` set (pd_merge_inner left right)"
    by force
qed

lemma date_select_target_columns: "date (select_target_columns m) = date (fst m)"
  by (cases m) (simp add: select_target_columns_def)

lemma ticker_select_target_columns: "u_ticker (select_target_columns m) = ticker (fst m)"
  by (cases m) (simp add: select_target_columns_def)

lemma date_add_features: "date (add_features m) = date (fst m)"
  by (cases m) (simp add: add_features_def daily_row.extend_def final_row.fields_def)

lemma card_dates_inter:
  "card (f ` set xs \<inter> g ` set ys) \<le> card (f ` set xs)"
  "card (f ` set xs \<inter> g ` set ys) \<le> card (g ` set ys)"
  by (simp_all add: card_mono)

lemma dates_create_ultimate_dataset:
  "date ` set (create_ultimate_dataset s a) = date ` set s \<inter> date ` set a"
proof -
  have "date ` set (create_ultimate_dataset s a)
      = (\<lambda>m. date (fst m)) ` set (pd_merge_inner s a)"
    by (simp add: create_ultimate_dataset_def image_image date_select_target_columns)
  then show ?thesis by (simp add: dates_pd_merge_inner)
qed

lemma length_create_ultimate_dataset:
  "length (create_ultimate_dataset s a) = (\<Sum>l\<leftarrow>s. length (filter (\<lambda>r. date r = date l) a))"
  by (simp add: create_ultimate_dataset_def length_pd_merge_inner)

lemma dates_final:
  "date ` set (map add_features (pd_merge_inner d a)) = date ` set d \<inter> date ` set a"
proof -
  have "date ` set (map add_features (pd_merge_inner d a))
      = (\<lambda>m. date (fst m)) ` set (pd_merge_inner d a)"
    by (simp add: image_image date_add_features)
  then show ?thesis by (simp add: dates_pd_merge_inner)
qed

text \<open>
  C1 (as amended). For the inner join on the date in \<open>create_ultimate_dataset\<close> and the two
  in \<open>create_final_datasets\<close>: the number of distinct dates of the merged table never
  exceeds the number of distinct dates of either input table, and the row count of the
  merged table is the number of pairs of a left row and a right row with the same date.
\<close>

theorem inner_join_cardinality:
  "card (date ` set (create_ultimate_dataset stock_data analysis_data))
     \<le> min (card (date ` set stock_data)) (card (date ` set analysis_data)) \<and>
   length (create_ultimate_dataset stock_data analysis_data)
     = (\<Sum>l\<leftarrow>stock_data. length (filter (\<lambda>r. date r = date l) analysis_data)) \<and>
   card (date ` set (fst (create_final_datasets sector_daily industry_daily analysis)))
     \<le> min (card (date ` set sector_daily)) (card (date ` set analysis)) \<and>
   length (fst (create_final_datasets sector_daily industry_daily analysis))
     = (\<Sum>l\<leftarrow>sector_daily. length (filter (\<lambda>r. date r = date l) analysis)) \<and>
   card (date ` set (snd (create_final_datasets sector_daily industry_daily analysis)))
     \<le> min (card (date ` set industry_daily)) (card (date ` set analysis)) \<and>
   length (snd (create_final_datasets sector_daily industry_daily analysis))
     = (\<Sum>l\<leftarrow>industry_daily. length (filter (\<lambda>r. date r = date l) analysis))"
  unfolding dates_create_ultimate_dataset length_create_ultimate_dataset
    create_final_datasets_def Let_def fst_conv snd_conv dates_final
  by (simp add: card_dates_inter length_pd_merge_inner)

lemma one_day_rows: "map date one_day = [Some 1]"
  by (simp add: one_day_def prepare_analysis_data_def analysis_day_def ffill_def
      analysis_row.extend_def analysis_clean_row.fields_def)

lemma two_tickers_dates: "map date two_tickers = [Some 1, Some 1]"
  by (simp add: two_tickers_def prepare_columns sorted_stock_def complete_row_def quote_def
      na_last_def)

lemma two_tickers_date_set: "date ` set two_tickers = {Some 1}"
  using two_tickers_dates by (metis (no_types) list.set(1,2) set_map insert_absorb2)

lemma one_day_date_set: "date ` set one_day = {Some 1}"
  using one_day_rows by (metis (no_types) list.set(1,2) set_map)

lemma two_tickers_one_day_rows:
  "length (create_ultimate_dataset two_tickers one_day) = 2"
proof -
  have "(\<Sum>l\<leftarrow>two_tickers. length (filter (\<lambda>r. date r = date l) one_day))
      = (\<Sum>d\<leftarrow>map date two_tickers. length (filter (\<lambda>k. k = d) (map date one_day)))"
    by (simp add: comp_def filter_map)
  also have "\<dots> = 2" unfolding two_tickers_dates one_day_rows by simp
  finally show ?thesis
    unfolding length_create_ultimate_dataset .
qed

theorem inner_join_cardinality_witness:
  "card (date ` set (create_ultimate_dataset two_tickers one_day)) \<le> 1 \<and>
   length (create_ultimate_dataset two_tickers one_day) = 2 \<and>
   length (fst (create_final_datasets [sector_day 1 ''Energy'', sector_day 1 ''Utilities'']
                  [sector_day 1 ''Oil'', sector_day 2 ''Gas''] [analysis_day 1 20])) = 2 \<and>
   length (snd (create_final_datasets [sector_day 1 ''Energy'', sector_day 1 ''Utilities'']
                  [sector_day 1 ''Oil'', sector_day 2 ''Gas''] [analysis_day 1 20])) = 1"
proof -
  have n: "(\<Sum>l\<leftarrow>two_tickers. length (filter (\<lambda>r. date r = date l) one_day)) = 2"
    using two_tickers_one_day_rows unfolding length_create_ultimate_dataset .
  from inner_join_cardinality [of two_tickers one_day
      "[sector_day 1 ''Energy'', sector_day 1 ''Utilities'']"
      "[sector_day 1 ''Oil'', sector_day 2 ''Gas'']" "[analysis_day 1 20]"]
  show ?thesis
    unfolding two_tickers_date_set one_day_date_set n
    by (simp add: sector_day_def analysis_day_def)
qed

text \<open>
  C1 as stated fails: two tickers quoted on the same day, joined with one analysis row of
  that day, give two rows, and each key domain has one date.
\<close>

theorem row_count_counterexample:
  "\<not> length (create_ultimate_dataset two_tickers one_day)
       \<le> min (card (date ` set two_tickers)) (card (date ` set one_day))"
  unfolding two_tickers_one_day_rows two_tickers_date_set one_day_date_set by simp

lemma filter_date_distinct:
  "distinct (map date xs) \<Longrightarrow> length (filter (\<lambda>r. date r = d) xs) \<le> 1"
proof (induction xs)
  case Nil
  show ?case by simp
next
  case (Cons x xs)
  show ?case
  proof (cases "date x = d")
    case True
    with Cons.prems have "filter (\<lambda>r. date r = d) xs = []"
      by (auto simp: filter_empty_conv image_iff)
    with True show ?thesis by simp
  next
    case False
    with Cons show ?thesis by simp
  qed
qed

lemma merge_keys:
  assumes "distinct (map date right)"
  shows "map (\<lambda>m. key (fst m)) (pd_merge_inner left right)
       = map key (filter (\<lambda>l. date l \<in> date ` set right) left)"
proof (induction left)
  case Nil
  show ?case by (simp add: pd_merge_inner_def)
next
  case (Cons l left)
  have step: "pd_merge_inner (l # left) right
      = map (\<lambda>r. (l, r)) (filter (\<lambda>r. date r = date l) right) @ pd_merge_inner left right"
    by (simp add: pd_merge_inner_def)
  show ?case
  proof (cases "date l \<in> date ` set right")
    case True
    then have "filter (\<lambda>r. date r = date l) right \<noteq> []"
      by (auto simp: filter_empty_conv)
    moreover have "length (filter (\<lambda>r. date r = date l) right) \<le> 1"
      using assms by (rule filter_date_distinct)
    ultimately obtain r where "filter (\<lambda>r. date r = date l) right = [r]"
      by (cases "filter (\<lambda>r. date r = date l) right") auto
    with True Cons show ?thesis
      by (simp add: step)
  next
    case False
    then have "filter (\<lambda>r. date r = date l) right = []"
      by (auto simp: filter_empty_conv image_iff)
    with False Cons show ?thesis
      by (simp add: step)
  qed
qed

lemma distinct_map_sort_key:
  "distinct (map g (sort_key f xs)) = distinct (map g xs)"
proof -
  have "distinct (map g ys) \<longleftrightarrow> card (g ` set ys) = length ys" for ys
    using card_distinct [of "map g ys"] distinct_card [of "map g ys"] by auto
  then show ?thesis by simp
qed

text \<open>
  C8 (as amended). When the stock table has at most one row per date and ticker and the
  analysis table has at most one row per date, no two rows of the ultimate dataset have
  the same date and ticker.
\<close>

theorem ultimate_keyed_by_date_ticker:
  assumes "distinct (map (\<lambda>r. (date r, ticker r)) stock_data)"
    and "distinct (map date analysis_data)"
  shows "distinct (map (\<lambda>u. (date u, u_ticker u)) (create_ultimate_dataset stock_data analysis_data))"
proof -
  have "map (\<lambda>u. (date u, u_ticker u)) (map select_target_columns (pd_merge_inner stock_data analysis_data))
      = map (\<lambda>m. (date (fst m), ticker (fst m))) (pd_merge_inner stock_data analysis_data)"
    by (simp add: date_select_target_columns ticker_select_target_columns)
  also have "\<dots> = map (\<lambda>r. (date r, ticker r))
      (filter (\<lambda>l. date l \<in> date ` set analysis_data) stock_data)"
    using assms(2) by (rule merge_keys)
  finally have "distinct (map (\<lambda>u. (date u, u_ticker u))
      (map select_target_columns (pd_merge_inner stock_data analysis_data)))"
    using assms(1) by (simp add: distinct_map_filter)
  then show ?thesis
    unfolding create_ultimate_dataset_def Let_def distinct_map_sort_key .
qed

lemma one_ticker_rows:
  "map date one_ticker = [Some 1]" "map ticker one_ticker = [Some ''AAA'']"
  by (simp_all add: one_ticker_def prepare_columns sorted_stock_def complete_row_def quote_def
      na_last_def)

lemma doubled_day_rows: "map date doubled_day = [Some 1, Some 1]"
  by (simp add: doubled_day_def prepare_analysis_data_def pd_merge_left_def analysis_day_def
      ffill_def analysis_row.extend_def analysis_clean_row.fields_def)

theorem ultimate_keyed_by_date_ticker_witness:
  "distinct (map (\<lambda>r. (date r, ticker r)) two_tickers) \<and> distinct (map date one_day) \<and>
   create_ultimate_dataset two_tickers one_day \<noteq> [] \<and>
   distinct (map (\<lambda>u. (date u, u_ticker u)) (create_ultimate_dataset two_tickers one_day))"
proof -
  have k: "map ticker two_tickers = [Some ''AAA'', Some ''BBB'']" "map date two_tickers = [Some 1, Some 1]"
    by (simp_all add: two_tickers_dates)
      (simp add: two_tickers_def prepare_columns sorted_stock_def complete_row_def quote_def
        na_last_def)
  have "map (\<lambda>r. (date r, ticker r)) two_tickers = zip (map date two_tickers) (map ticker two_tickers)"
    by (simp add: zip_map_map [where f = date and g = ticker, simplified] list_eq_iff_nth_eq)
  then have h1: "distinct (map (\<lambda>r. (date r, ticker r)) two_tickers)"
    by (simp add: k)
  have h2: "distinct (map date one_day)"
    by (simp add: one_day_rows)
  have "length (create_ultimate_dataset two_tickers one_day) = 2"
    using two_tickers_one_day_rows by simp
  then have "create_ultimate_dataset two_tickers one_day \<noteq> []"
    by auto
  with h1 h2 ultimate_keyed_by_date_ticker [OF h1 h2] show ?thesis
    by simp
qed

text \<open>
  C8 as stated fails: the stock table has one row; the time series lists its date twice,
  so the left join in \<open>prepare_analysis_data\<close> gives two analysis rows of that date, and
  the ultimate dataset has two rows with the same date and ticker.
\<close>

theorem duplicate_date_counterexample:
  "length one_ticker = 1 \<and>
   map date (create_ultimate_dataset one_ticker doubled_day) = [Some 1, Some 1] \<and>
   map u_ticker (create_ultimate_dataset one_ticker doubled_day) = [Some ''AAA'', Some ''AAA'']"
proof -
  from one_ticker_rows(1) obtain s where s1: "one_ticker = [s]"
    by (cases one_ticker) auto
  have s2: "date s = Some 1" "ticker s = Some ''AAA''"
    using one_ticker_rows unfolding s1 by simp_all
  note s = s1 s2
  from doubled_day_rows obtain a b where a1: "doubled_day = [a, b]"
    by (cases doubled_day; cases "tl doubled_day") auto
  have a2: "date a = Some 1" "date b = Some 1"
    using doubled_day_rows unfolding a1 by simp_all
  note a = a1 a2
  show ?thesis
    by (simp add: s a create_ultimate_dataset_def pd_merge_inner_def
        date_select_target_columns ticker_select_target_columns na_last_def)
qed

section \<open>Properties of the stage on the files\<close>









end
